theory Spec2Isabelle
  imports Complex_Main
begin

section \<open>JavaScript values\<close>

text \<open>
  The dashboard script works on decoded JSON replies, so its values are modelled by a
  datatype of JavaScript values. A number is \<open>NaN\<close>, an infinity or a finite value; the
  finite values are rationals, which contain every finite double, and the script only
  tests them for zero, compares them with constants and takes absolute values, all of
  which are exact. The two zeros of a double are one value \<open>Fin 0\<close>.
  An object is an association list; \<open>map_of\<close> reads the binding in effect.
\<close>

datatype jsnum = NaN | NegInf | Fin rat | PosInf

datatype json =
    JUndefined
  | JNull
  | JBool bool
  | JNum jsnum
  | JStr string
  | JArr "json list"
  | JObj "(string \<times> json) list"

datatype jstype = TUndefined | TObject | TBoolean | TNumber | TString

text \<open>\<open>typeof v\<close>; \<open>typeof null\<close> is \<open>'object'\<close>.\<close>

fun typeof :: "json \<Rightarrow> jstype" where
  "typeof JUndefined = TUndefined"
| "typeof JNull = TObject"
| "typeof (JBool b) = TBoolean"
| "typeof (JNum n) = TNumber"
| "typeof (JStr s) = TString"
| "typeof (JArr xs) = TObject"
| "typeof (JObj kvs) = TObject"

text \<open>Truthiness (ToBoolean): what \<open>!v\<close>, \<open>v && w\<close>, \<open>v || w\<close> and \<open>if (v)\<close> test.\<close>

fun num_truthy :: "jsnum \<Rightarrow> bool" where
  "num_truthy NaN = False"
| "num_truthy (Fin q) = (q \<noteq> 0)"
| "num_truthy NegInf = True"
| "num_truthy PosInf = True"

fun truthy :: "json \<Rightarrow> bool" where
  "truthy JUndefined = False"
| "truthy JNull = False"
| "truthy (JBool b) = b"
| "truthy (JNum n) = num_truthy n"
| "truthy (JStr s) = (s \<noteq> [])"
| "truthy (JArr xs) = True"
| "truthy (JObj kvs) = True"

text \<open>
  \<open>a || b\<close>. Both operands are property reads or literals wherever the script uses it,
  so evaluating the right operand eagerly changes nothing.
\<close>

definition js_or :: "json \<Rightarrow> json \<Rightarrow> json" where
  "js_or a b = (if truthy a then a else b)"

text \<open>\<open>n || 0\<close> on a number.\<close>

definition or_zero :: "jsnum \<Rightarrow> jsnum" where
  "or_zero n = (if num_truthy n then n else Fin 0)"

fun nullish :: "json \<Rightarrow> bool" where
  "nullish JUndefined = True"
| "nullish JNull = True"
| "nullish v = False"

text \<open>
  \<open>v.k\<close> on a receiver that is neither \<open>null\<close> nor \<open>undefined\<close> (on those the read
  throws a TypeError, which the callers below write out where the source has no guard).
  The script reads only the names token, access_token, user, profile, message, error,
  balance, transactions, title, description, type, meta, source, note, date, created_at,
  amount, value, name, email and phone; none of them is a property of the String, Number,
  Boolean, Array or Object prototypes, so on a primitive or an array the read yields
  \<open>undefined\<close>, and on an object it is the own property.
\<close>

fun get :: "json \<Rightarrow> string \<Rightarrow> json" where
  "get (JObj kvs) k = (case map_of kvs k of Some v \<Rightarrow> v | None \<Rightarrow> JUndefined)"
| "get v k = JUndefined"

text \<open>\<open>v?.k\<close>: optional chaining yields \<open>undefined\<close> on \<open>null\<close> and \<open>undefined\<close>.\<close>

definition opt_get :: "json \<Rightarrow> string \<Rightarrow> json" where
  "opt_get v k = (if nullish v then JUndefined else get v k)"

text \<open>Comparison and absolute value of numbers; every comparison with \<open>NaN\<close> is false.\<close>

fun num_lt :: "jsnum \<Rightarrow> jsnum \<Rightarrow> bool" where
  "num_lt NaN y = False"
| "num_lt x NaN = False"
| "num_lt (Fin a) (Fin b) = (a < b)"
| "num_lt NegInf NegInf = False"
| "num_lt NegInf y = True"
| "num_lt x NegInf = False"
| "num_lt PosInf y = False"
| "num_lt x PosInf = True"

fun num_le :: "jsnum \<Rightarrow> jsnum \<Rightarrow> bool" where
  "num_le NaN y = False"
| "num_le x NaN = False"
| "num_le x y = (x = y \<or> num_lt x y)"

fun num_abs :: "jsnum \<Rightarrow> jsnum" where
  "num_abs NaN = NaN"
| "num_abs NegInf = PosInf"
| "num_abs PosInf = PosInf"
| "num_abs (Fin q) = Fin \<bar>q\<bar>"

text \<open>\<open>s.startsWith(t)\<close> and \<open>s.includes(t)\<close> on strings.\<close>

fun startsWith :: "string \<Rightarrow> string \<Rightarrow> bool" where
  "startsWith s [] = True"
| "startsWith [] (c # t) = False"
| "startsWith (d # s) (c # t) = (d = c \<and> startsWith s t)"

fun includes_js :: "string \<Rightarrow> string \<Rightarrow> bool" where
  "includes_js [] t = (t = [])"
| "includes_js (c # s) t = (startsWith (c # s) t \<or> includes_js s t)"

subsection \<open>Built-ins of the host\<close>

text \<open>
  The conversions the script takes from the JavaScript engine and the browser are not
  code of this repository. They are parameters of the model, so every theorem holds
  for whatever the engine computes:
  \<^item> \<open>str_to_num\<close>: ToNumber on a string (what \<open>Number(s)\<close> returns);
  \<open>to_str\<close>: ToString on a value that is not a string;
  \<^item> \<open>trim\<close>: \<open>String.prototype.trim\<close>;
  \<^item> \<open>to_locale\<close>: \<open>n.toLocaleString(undefined, {minimumFractionDigits: 2,
    maximumFractionDigits: 2})\<close>;
  \<^item> \<open>json_stringify\<close>: \<open>JSON.stringify\<close>.
\<close>

record builtins =
  str_to_num :: "string \<Rightarrow> jsnum"
  to_str :: "json \<Rightarrow> string"
  trim :: "string \<Rightarrow> string"
  to_locale :: "jsnum \<Rightarrow> string"
  json_stringify :: "json \<Rightarrow> string"

text \<open>
  \<open>Number(v)\<close>. An array or a plain object is converted through its string form
  (ToPrimitive finds no primitive \<open>valueOf\<close>).
\<close>

fun Number_js :: "builtins \<Rightarrow> json \<Rightarrow> jsnum" where
  "Number_js B JUndefined = NaN"
| "Number_js B JNull = Fin 0"
| "Number_js B (JBool b) = Fin (if b then 1 else 0)"
| "Number_js B (JNum n) = n"
| "Number_js B (JStr s) = str_to_num B s"
| "Number_js B (JArr xs) = str_to_num B (to_str B (JArr xs))"
| "Number_js B (JObj kvs) = str_to_num B (to_str B (JObj kvs))"

text \<open>
  The string a value becomes in a concatenation \<open>'...' + v\<close>, in a template literal,
  as a storage item and as the \<open>textContent\<close> of an element.
\<close>

fun String_js :: "builtins \<Rightarrow> json \<Rightarrow> string" where
  "String_js B (JStr s) = s"
| "String_js B v = to_str B v"

section \<open>The dashboard script (src/script.js)\<close>

subsection \<open>Configuration and fixture data\<close>

record config =
  API_BASE :: string
  PAYSTACK_PUBLIC_KEY :: string
  PAYSTACK_VERIFY_ENDPOINT :: string

definition CONFIG :: config where
  "CONFIG = \<lparr>API_BASE = ''https://paymomentbackend.onrender.com/api'',
     PAYSTACK_PUBLIC_KEY = [],
     PAYSTACK_VERIFY_ENDPOINT = ''/pay/verify''\<rparr>"

definition MOCK_token :: json where
  "MOCK_token = JStr ''demo-token''"

definition MOCK_user :: json where
  "MOCK_user = JObj [(''name'', JStr ''Demo User''), (''email'', JStr ''demo@example.com''),
     (''phone'', JStr ''08130000000'')]"

definition MOCK_balance :: jsnum where
  "MOCK_balance = Fin 15200.5"

definition MOCK_transactions :: json where
  "MOCK_transactions = JArr
     [JObj [(''id'', JStr ''tx_1''), (''title'', JStr ''Top up''), (''meta'', JStr ''Card''),
            (''amount'', JNum (Fin 5000)), (''date'', JStr ''2025-11-10'')],
      JObj [(''id'', JStr ''tx_2''), (''title'', JStr ''Electricity''), (''meta'', JStr ''Ibadan Elec''),
            (''amount'', JNum (Fin (- 2300))), (''date'', JStr ''2025-11-09'')],
      JObj [(''id'', JStr ''tx_3''), (''title'', JStr ''Airtime''), (''meta'', JStr ''0813xxxxxxx''),
            (''amount'', JNum (Fin (- 500))), (''date'', JStr ''2025-11-02'')]]"

subsection \<open>State\<close>

text \<open>
  One record holds everything the script reads and writes: the \<open>App\<close> object, the
  variable \<open>currentService\<close>, the parts of the page it changes (whether each screen and
  modal carries the class \<open>hidden\<close>, the text of the greeting, of the balance and of the
  toast, the items of the transaction list), \<open>localStorage\<close>, and a log of the requests
  handed to \<open>fetch\<close>, oldest first. The elements the script looks up are assumed to exist
  in the page. The timer that hides the toast again is not modelled.
\<close>

datatype li =
    NoTransactions
  | TxItem (li_title: string) (li_meta: string) (li_date: string) (li_sign: string)
      (li_amount: string)

record request =
  url :: string
  meth :: "string option"
  headers :: "(string \<times> string) list"
  req_body :: "string option"

record state =
  token :: json
  user :: json
  balanceVisible :: bool
  balance :: json
  transactions :: json
  currentService :: json
  authScreen_hidden :: bool
  dashboardScreen_hidden :: bool
  addMoneyModal_hidden :: bool
  serviceModal_hidden :: bool
  greeting :: string
  userEmail :: string
  balanceValue :: string
  txList :: "li list"
  toast_text :: string
  toast_hidden :: bool
  paystack_opened :: bool
  localStorage :: "string \<Rightarrow> string option"
  calls :: "request list"

text \<open>
  A handler either runs to its end or stops at an uncaught TypeError; both carry the state
  as it was left, since what was written before the throw stays written.
\<close>

datatype outcome = Done state | Threw state

fun final :: "outcome \<Rightarrow> state" where
  "final (Done s) = s"
| "final (Threw s) = s"

fun and_then :: "outcome \<Rightarrow> (state \<Rightarrow> outcome) \<Rightarrow> outcome" where
  "and_then (Done s) f = f s"
| "and_then (Threw s) f = Threw s"

subsection \<open>Utilities\<close>

definition toast :: "builtins \<Rightarrow> json \<Rightarrow> state \<Rightarrow> state" where
  "toast B msg s = s\<lparr>toast_text := String_js B msg, toast_hidden := False\<rparr>"

definition naira :: string where
  "naira = [CHR 0xE2, CHR 0x82, CHR 0xA6]"

definition currency :: "builtins \<Rightarrow> json \<Rightarrow> string" where
  "currency B n =
     naira @ to_locale B (case n of JNum m \<Rightarrow> m | _ \<Rightarrow> or_zero (Number_js B n))"

subsection \<open>The API wrapper\<close>

text \<open>
  What \<open>fetch\<close> does is the environment's: for each request either it rejects (the
  string is \<open>err.message || String(err)\<close>), or it answers with a status, a content type
  (if the header is there), the body's text, and what decoding that text as JSON gives:
  the value, or the message of the error the decoder throws. \<open>res.ok\<close> is the Fetch
  standard's: a status from 200 to 299. The environment also gives \<open>Date.now()\<close> and
  whether the payment widget is there.
\<close>

datatype fetched =
    Rejected string
  | Response nat "string option" string "string + json"

record env =
  backend :: "request \<Rightarrow> fetched"
  now :: nat
  paystack_ready :: bool
  paystack_attaches :: bool

record options =
  opt_method :: "string option"
  opt_body :: "string option"

definition no_options :: options where
  "no_options = \<lparr>opt_method = None, opt_body = None\<rparr>"

definition post :: "string \<Rightarrow> options" where
  "post b = \<lparr>opt_method = Some ''POST'', opt_body = Some b\<rparr>"

text \<open>The object \<open>apiFetch\<close> returns; a field it does not set is \<open>undefined\<close>.\<close>

record reply =
  ok :: bool
  data :: json
  error :: json
  status :: json

definition res_ok :: "nat \<Rightarrow> bool" where
  "res_ok st = (200 \<le> st \<and> st \<le> 299)"

definition mock_reply :: "json \<Rightarrow> reply" where
  "mock_reply d = \<lparr>ok = True, data = d, error = JUndefined, status = JUndefined\<rparr>"

definition error_reply :: "string \<Rightarrow> reply" where
  "error_reply msg = \<lparr>ok = False, data = JUndefined, error = JStr msg, status = JUndefined\<rparr>"

definition http_reply :: "nat \<Rightarrow> json \<Rightarrow> reply" where
  "http_reply st d = \<lparr>ok = res_ok st, data = d, error = JUndefined, status = JNum (Fin (of_nat st))\<rparr>"

text \<open>\<open>CONFIG.API_BASE && CONFIG.API_BASE.trim()\<close>\<close>

definition base_of :: "builtins \<Rightarrow> config \<Rightarrow> string" where
  "base_of B cfg = (if API_BASE cfg = [] then [] else trim B (API_BASE cfg))"

definition build_request :: "builtins \<Rightarrow> string \<Rightarrow> string \<Rightarrow> options \<Rightarrow> state \<Rightarrow> request" where
  "build_request B base path opts s =
     \<lparr>url = base @ path,
      meth = opt_method opts,
      headers = (''Content-Type'', ''application/json'') #
        (if truthy (token s) then [(''Authorization'', ''Bearer '' @ String_js B (token s))] else []),
      req_body = opt_body opts\<rparr>"

text \<open>The demo mode of \<open>apiFetch\<close>: the replies made up when no base is configured.\<close>

definition mock_fetch :: "builtins \<Rightarrow> env \<Rightarrow> string \<Rightarrow> reply" where
  "mock_fetch B E path =
     (if includes_js path ''/auth/login'' then mock_reply (JObj [(''token'', MOCK_token), (''user'', MOCK_user)])
      else if includes_js path ''/auth/register'' then mock_reply (JObj [(''token'', MOCK_token), (''user'', MOCK_user)])
      else if includes_js path ''/me/balance'' then mock_reply (JObj [(''balance'', JNum MOCK_balance)])
      else if includes_js path ''/me/transactions'' then mock_reply (JObj [(''transactions'', MOCK_transactions)])
      else if includes_js path ''/pay/service'' then
        mock_reply (JObj [(''result'', JStr ''success''), (''id'', JStr (''svc_'' @ to_str B (JNum (Fin (of_nat (now E))))))])
      else if includes_js path ''/pay/topup'' then
        mock_reply (JObj [(''result'', JStr ''success''), (''id'', JStr (''top_'' @ to_str B (JNum (Fin (of_nat (now E))))))])
      else error_reply ''No API configured'')"

text \<open>The \<open>try\<close> block of \<open>apiFetch\<close>: from what \<open>fetch\<close> gave to the object returned.\<close>

definition decode :: "fetched \<Rightarrow> reply" where
  "decode f =
     (case f of
        Rejected msg \<Rightarrow> error_reply msg
      | Response st ctype text parsed \<Rightarrow>
          (if includes_js (case ctype of None \<Rightarrow> [] | Some c \<Rightarrow> c) ''application/json'' then
             (case parsed of Inl msg \<Rightarrow> error_reply msg | Inr j \<Rightarrow> http_reply st j)
           else
             (case parsed of Inl msg \<Rightarrow> http_reply st (JStr text) | Inr j \<Rightarrow> http_reply st j)))"

definition apiFetch :: "builtins \<Rightarrow> config \<Rightarrow> env \<Rightarrow> string \<Rightarrow> options \<Rightarrow> state \<Rightarrow> reply \<times> state" where
  "apiFetch B cfg E path opts s =
     (let base = base_of B cfg in
      if base = [] then (mock_fetch B E path, s)
      else
        (let req = build_request B base path opts s
         in (decode (backend E req), s\<lparr>calls := calls s @ [req]\<rparr>)))"

text \<open>
  \<open>res.data?.message || res.data?.error || res.error || fallback\<close>, the message every
  failure branch of the script passes to \<open>toast\<close>.
\<close>

definition failure_message :: "reply \<Rightarrow> string \<Rightarrow> json" where
  "failure_message res fallback =
     js_or (opt_get (data res) ''message'')
       (js_or (opt_get (data res) ''error'') (js_or (error res) (JStr fallback)))"

subsection \<open>Balance and transactions\<close>

definition updateBalanceUI :: "builtins \<Rightarrow> state \<Rightarrow> state" where
  "updateBalanceUI B s =
     s\<lparr>balanceValue := (if balanceVisible s then currency B (balance s) else ''****'')\<rparr>"

text \<open>
  Every function that awaits \<open>apiFetch\<close> is written in two parts: \<open>f_reply\<close> is what
  the function does with the reply once it is there, and \<open>f\<close> issues the request and hands
  the reply on. A statement about every reply is then a statement about \<open>f_reply\<close>.
\<close>

definition refreshBalance_reply :: "builtins \<Rightarrow> reply \<Rightarrow> state \<Rightarrow> state" where
  "refreshBalance_reply B res s =
     updateBalanceUI B
       (if ok res \<and> typeof (opt_get (data res) ''balance'') \<noteq> TUndefined then
          s\<lparr>balance := JNum (or_zero (Number_js B (get (data res) ''balance'')))\<rparr>
        else if ok res \<and> typeof (data res) = TNumber then
          s\<lparr>balance := JNum (Number_js B (data res))\<rparr>
        else s\<lparr>balance := JNum (or_zero MOCK_balance)\<rparr>)"

definition refreshBalance :: "builtins \<Rightarrow> config \<Rightarrow> env \<Rightarrow> state \<Rightarrow> state" where
  "refreshBalance B cfg E s =
     (let (res, s1) = apiFetch B cfg E ''/me/balance'' no_options s in refreshBalance_reply B res s1)"

text \<open>The four constants each row of \<open>renderTransactions\<close> is built from.\<close>

definition tx_title :: "json \<Rightarrow> json" where
  "tx_title tx =
     js_or (get tx ''title'') (js_or (get tx ''description'') (js_or (get tx ''type'') (JStr ''Transaction'')))"

definition tx_meta :: "json \<Rightarrow> json" where
  "tx_meta tx = js_or (get tx ''meta'') (js_or (get tx ''source'') (js_or (get tx ''note'') (JStr [])))"

definition tx_date :: "json \<Rightarrow> json" where
  "tx_date tx = js_or (get tx ''date'') (js_or (get tx ''created_at'') (JStr []))"

definition tx_amount :: "builtins \<Rightarrow> json \<Rightarrow> jsnum" where
  "tx_amount B tx = Number_js B (js_or (get tx ''amount'') (js_or (get tx ''value'') (JNum (Fin 0))))"

definition tx_item :: "builtins \<Rightarrow> json \<Rightarrow> li" where
  "tx_item B tx =
     TxItem (String_js B (tx_title tx)) (String_js B (tx_meta tx)) (String_js B (tx_date tx))
       (if num_lt (tx_amount B tx) (Fin 0) then ''-'' else [])
       (currency B (JNum (num_abs (tx_amount B tx))))"

text \<open>
  The \<open>forEach\<close> of \<open>renderTransactions\<close>. Reading \<open>tx.title\<close> on an element that is
  \<open>null\<close> throws; the items appended before it stay in the list.
\<close>

fun forEach_tx :: "builtins \<Rightarrow> json list \<Rightarrow> state \<Rightarrow> outcome" where
  "forEach_tx B [] s = Done s"
| "forEach_tx B (tx # txs) s =
     (if nullish tx then Threw s
      else forEach_tx B txs (s\<lparr>txList := txList s @ [tx_item B tx]\<rparr>))"

text \<open>\<open>v.length\<close> of a value that is not \<open>null\<close> or \<open>undefined\<close>.\<close>

fun length_js :: "json \<Rightarrow> json" where
  "length_js (JArr xs) = JNum (Fin (of_nat (length xs)))"
| "length_js (JStr s) = JNum (Fin (of_nat (length s)))"
| "length_js v = get v ''length''"

text \<open>
  \<open>App.transactions\<close> is an array wherever script.js assigns it; on any other value with
  a truthy \<open>length\<close> the call of \<open>forEach\<close> throws, as that value has no such method.
\<close>

definition renderTransactions :: "builtins \<Rightarrow> state \<Rightarrow> outcome" where
  "renderTransactions B s =
     (let s0 = s\<lparr>txList := []\<rparr> in
      if \<not> truthy (transactions s) then Done (s0\<lparr>txList := [NoTransactions]\<rparr>)
      else if \<not> truthy (length_js (transactions s)) then Done (s0\<lparr>txList := [NoTransactions]\<rparr>)
      else (case transactions s of JArr txs \<Rightarrow> forEach_tx B txs s0 | _ \<Rightarrow> Threw s0))"

fun isArray :: "json \<Rightarrow> bool" where
  "isArray (JArr xs) = True"
| "isArray v = False"

definition loadTransactions_reply :: "builtins \<Rightarrow> reply \<Rightarrow> state \<Rightarrow> outcome" where
  "loadTransactions_reply B res s =
     renderTransactions B
       (if ok res \<and> isArray (opt_get (data res) ''transactions'') then
          s\<lparr>transactions := get (data res) ''transactions''\<rparr>
        else if ok res \<and> isArray (data res) then s\<lparr>transactions := data res\<rparr>
        else s\<lparr>transactions := MOCK_transactions\<rparr>)"

definition loadTransactions :: "builtins \<Rightarrow> config \<Rightarrow> env \<Rightarrow> state \<Rightarrow> outcome" where
  "loadTransactions B cfg E s =
     (let (res, s1) = apiFetch B cfg E ''/me/transactions'' no_options s in
      loadTransactions_reply B res s1)"

subsection \<open>Authentication\<close>

definition onLoggedIn :: "builtins \<Rightarrow> config \<Rightarrow> env \<Rightarrow> state \<Rightarrow> outcome" where
  "onLoggedIn B cfg E s =
     loadTransactions B cfg E
       (refreshBalance B cfg E
          (s\<lparr>authScreen_hidden := True,
             dashboardScreen_hidden := False,
             greeting := ''Hi, '' @ String_js B (js_or (opt_get (user s) ''name'') (JStr ''User'')),
             userEmail := String_js B (js_or (opt_get (user s) ''email'') (JStr []))\<rparr>))"

text \<open>
  \<open>App.token = ...; App.user = ...; localStorage.setItem(...)\<close> of the success branch of
  both \<open>handleLogin\<close> and \<open>handleRegister\<close>.
\<close>

definition store_session :: "builtins \<Rightarrow> json \<Rightarrow> state \<Rightarrow> state" where
  "store_session B d s =
     (let s1 = s\<lparr>token := js_or (get d ''token'') (get d ''access_token''),
                  user := js_or (get d ''user'') (js_or (get d ''profile'') MOCK_user)\<rparr>
      in s1\<lparr>localStorage := (localStorage s1)
              (''pd_token'' \<mapsto> String_js B (token s1), ''pd_user'' \<mapsto> json_stringify B (user s1))\<rparr>)"

text \<open>
  The handlers take what the user typed into the form. \<open>onLoggedIn()\<close> is called and not
  awaited: its requests finish after the toast, and an error in it is an unhandled
  rejection that the handler does not see. Neither touches what the other writes, so the
  state once everything has settled is the one computed here in sequence. Other clicks
  arriving while a handler waits are not modelled.
\<close>

definition handleLogin_reply :: "builtins \<Rightarrow> config \<Rightarrow> env \<Rightarrow> reply \<Rightarrow> state \<Rightarrow> outcome" where
  "handleLogin_reply B cfg E res s =
     (if ok res \<and> truthy (data res)
           \<and> truthy (js_or (get (data res) ''token'') (get (data res) ''access_token''))
      then Done (toast B (JStr ''Logged in'')
             (final (onLoggedIn B cfg E (store_session B (data res) s))))
      else Done (toast B (failure_message res ''Login failed'') s))"

definition handleLogin :: "builtins \<Rightarrow> config \<Rightarrow> env \<Rightarrow> string \<Rightarrow> string \<Rightarrow> state \<Rightarrow> outcome" where
  "handleLogin B cfg E identifier_value password_value s =
     (let identifier = trim B identifier_value; password = trim B password_value in
      if identifier = [] \<or> password = [] then
        Done (toast B (JStr ''Provide email/phone and password'') s)
      else
        (let (res, s1) = apiFetch B cfg E ''/auth/login''
               (post (json_stringify B
                  (JObj [(''identifier'', JStr identifier), (''password'', JStr password)]))) s
         in handleLogin_reply B cfg E res s1))"

definition handleRegister_reply :: "builtins \<Rightarrow> config \<Rightarrow> env \<Rightarrow> reply \<Rightarrow> state \<Rightarrow> outcome" where
  "handleRegister_reply B cfg E res s =
     (if ok res \<and> truthy (data res)
           \<and> truthy (js_or (get (data res) ''token'') (get (data res) ''access_token''))
      then Done (toast B (JStr ''Account created'')
             (final (onLoggedIn B cfg E (store_session B (data res) s))))
      else Done (toast B (failure_message res ''Register failed'') s))"

definition handleRegister ::
    "builtins \<Rightarrow> config \<Rightarrow> env \<Rightarrow> string \<Rightarrow> string \<Rightarrow> string \<Rightarrow> string \<Rightarrow> state \<Rightarrow> outcome" where
  "handleRegister B cfg E name_value email_value phone_value password_value s =
     (let name = trim B name_value; email = trim B email_value; phone = trim B phone_value;
          password = trim B password_value in
      if name = [] \<or> email = [] \<or> password = [] then
        Done (toast B (JStr ''Complete required fields'') s)
      else
        (let (res, s1) = apiFetch B cfg E ''/auth/register''
               (post (json_stringify B
                  (JObj [(''name'', JStr name), (''email'', JStr email), (''phone'', JStr phone),
                         (''password'', JStr password)]))) s
         in handleRegister_reply B cfg E res s1))"

subsection \<open>Payments\<close>

text \<open>
  \<open>startPayment\<close> after its amount check is \<open>startPayment_checked\<close>: the card
  branch, and the call of \<open>/pay/topup\<close> (the transfer flow) it falls back to. The
  payment widget is a black box: the model records that its frame was opened, not the
  parameters of \<open>setup\<close>, and its completion callback is a later event that is not part
  of this handler.
  \<open>paystack_ready\<close> says whether \<open>window.PaystackPop.setup\<close> is there at the click,
  \<open>paystack_attaches\<close> whether it is there after \<open>loadPaystackKey()\<close> and the wait.
\<close>

definition topup_reply :: "builtins \<Rightarrow> config \<Rightarrow> env \<Rightarrow> reply \<Rightarrow> state \<Rightarrow> outcome" where
  "topup_reply B cfg E res s =
     (if ok res then
        and_then
          (loadTransactions B cfg E (refreshBalance B cfg E (toast B (JStr ''Top up initiated'') s)))
          (\<lambda>s2. Done (s2\<lparr>addMoneyModal_hidden := True\<rparr>))
      else Done (toast B (failure_message res ''Top up failed'') s))"

definition topup_transfer :: "builtins \<Rightarrow> config \<Rightarrow> env \<Rightarrow> jsnum \<Rightarrow> string \<Rightarrow> state \<Rightarrow> outcome" where
  "topup_transfer B cfg E amount method s =
     (let (res, s1) = apiFetch B cfg E ''/pay/topup''
            (post (json_stringify B (JObj [(''amount'', JNum amount), (''method'', JStr method)]))) s
      in topup_reply B cfg E res s1)"

definition startPayment_checked :: "builtins \<Rightarrow> config \<Rightarrow> env \<Rightarrow> jsnum \<Rightarrow> string \<Rightarrow> state \<Rightarrow> outcome" where
  "startPayment_checked B cfg E amount method s =
     (if method = ''card'' \<and> PAYSTACK_PUBLIC_KEY cfg \<noteq> [] then
        (let s1 = (if paystack_ready E then s else toast B (JStr ''Loading Paystack script...'') s)
         in if paystack_ready E \<or> paystack_attaches E then
              Done (s1\<lparr>paystack_opened := True, addMoneyModal_hidden := True\<rparr>)
            else topup_transfer B cfg E amount method
                   (toast B (JStr ''Paystack failed to initialize; falling back to transfer flow.'') s1))
      else topup_transfer B cfg E amount method s)"

definition startPayment :: "builtins \<Rightarrow> config \<Rightarrow> env \<Rightarrow> string \<Rightarrow> string \<Rightarrow> state \<Rightarrow> outcome" where
  "startPayment B cfg E amount_value method s =
     (let amount = or_zero (Number_js B (JStr amount_value)) in
      if \<not> num_truthy amount \<or> num_lt amount (Fin 50) then
        Done (toast B (JStr ''Provide a valid amount (min 50)'') s)
      else startPayment_checked B cfg E amount method s)"

definition payService_reply :: "builtins \<Rightarrow> config \<Rightarrow> env \<Rightarrow> reply \<Rightarrow> state \<Rightarrow> outcome" where
  "payService_reply B cfg E res s =
     (if ok res then
        and_then
          (loadTransactions B cfg E (refreshBalance B cfg E (toast B (JStr ''Service paid'') s)))
          (\<lambda>s2. Done (s2\<lparr>serviceModal_hidden := True\<rparr>))
      else Done (toast B (failure_message res ''Service payment failed'') s))"

definition payService :: "builtins \<Rightarrow> config \<Rightarrow> env \<Rightarrow> string \<Rightarrow> string \<Rightarrow> state \<Rightarrow> outcome" where
  "payService B cfg E customer_value amount_value s =
     (let customer = trim B customer_value; amount = Number_js B (JStr amount_value) in
      if customer = [] \<or> \<not> num_truthy amount \<or> num_le amount (Fin 0) then
        Done (toast B (JStr ''Complete the service form'') s)
      else
        (let (res, s1) = apiFetch B cfg E ''/pay/service''
               (post (json_stringify B
                  (JObj [(''service'', currentService s), (''customer'', JStr customer),
                         (''amount'', JNum amount)]))) s
         in payService_reply B cfg E res s1))"

subsection \<open>The click handlers of \<open>wireUI\<close>\<close>

text \<open>The handler of \<open>#logout-btn\<close>.\<close>

definition logout_click :: "state \<Rightarrow> state" where
  "logout_click s =
     s\<lparr>token := JNull,
       user := JNull,
       localStorage := (localStorage s)(''pd_token'' := None, ''pd_user'' := None),
       dashboardScreen_hidden := True,
       authScreen_hidden := False\<rparr>"

text \<open>The handler of \<open>#toggle-balance\<close>.\<close>

definition toggle_balance_click :: "builtins \<Rightarrow> state \<Rightarrow> state" where
  "toggle_balance_click B s = updateBalanceUI B (s\<lparr>balanceVisible := \<not> balanceVisible s\<rparr>)"

text \<open>The \<open>App\<close> object as the script declares it, on a page that shows the login screen.\<close>

definition App_initial :: state where
  "App_initial =
     \<lparr>token = JNull, user = JNull, balanceVisible = True, balance = JNum (Fin 0),
      transactions = JArr [], currentService = JNull,
      authScreen_hidden = False, dashboardScreen_hidden = True,
      addMoneyModal_hidden = True, serviceModal_hidden = True,
      greeting = [], userEmail = [], balanceValue = [], txList = [],
      toast_text = [], toast_hidden = True, paystack_opened = False,
      localStorage = Map.empty, calls = []\<rparr>"

section \<open>The earlier variant of the script: src/unnamed/part 000\<close>

text \<open>
  The repository holds a second copy of the script, the file \<open>src/unnamed/part_000\<close>,
  an earlier and less defensive one. The functions of it that differ and that the properties below concern are modelled
  here under the same names with the suffix \<open>_v0\<close>; \<open>toast\<close>, \<open>currency\<close>,
  \<open>updateBalanceUI\<close> and the shape of \<open>App\<close> are the same in both copies (the fixture
  user has another name).
\<close>

definition MOCK_user_v0 :: json where
  "MOCK_user_v0 = JObj [(''name'', JStr ''Eunice Chidi''), (''email'', JStr ''eunice@example.com''),
     (''phone'', JStr ''08130000000'')]"

definition CONFIG_v0 :: config where
  "CONFIG_v0 = \<lparr>API_BASE = [], PAYSTACK_PUBLIC_KEY = [], PAYSTACK_VERIFY_ENDPOINT = []\<rparr>"

definition mock_fetch_v0 :: "builtins \<Rightarrow> env \<Rightarrow> string \<Rightarrow> reply" where
  "mock_fetch_v0 B E path =
     (if includes_js path ''/auth/login'' then mock_reply (JObj [(''token'', MOCK_token), (''user'', MOCK_user_v0)])
      else if includes_js path ''/auth/register'' then mock_reply (JObj [(''token'', MOCK_token), (''user'', MOCK_user_v0)])
      else if includes_js path ''/me/balance'' then mock_reply (JObj [(''balance'', JNum MOCK_balance)])
      else if includes_js path ''/me/transactions'' then mock_reply (JObj [(''transactions'', MOCK_transactions)])
      else if includes_js path ''/pay/service'' then
        mock_reply (JObj [(''result'', JStr ''success''), (''id'', JStr (''svc_'' @ to_str B (JNum (Fin (of_nat (now E))))))])
      else error_reply ''No API configured (demo mode)'')"

text \<open>
  This copy calls \<open>res.json()\<close> whatever the content type, and a body that is not JSON
  makes it throw into the \<open>catch\<close>. The \<open>catch\<close> keeps \<open>err.message || err\<close>; the
  only use of it is in a string concatenation, where an error object without a message
  becomes the string that \<open>Rejected\<close> carries.
\<close>

definition decode_v0 :: "fetched \<Rightarrow> reply" where
  "decode_v0 f =
     (case f of
        Rejected msg \<Rightarrow> error_reply msg
      | Response st ctype text parsed \<Rightarrow>
          (case parsed of Inl msg \<Rightarrow> error_reply msg | Inr j \<Rightarrow> http_reply st j))"

definition apiFetch_v0 :: "builtins \<Rightarrow> config \<Rightarrow> env \<Rightarrow> string \<Rightarrow> options \<Rightarrow> state \<Rightarrow> reply \<times> state" where
  "apiFetch_v0 B cfg E path opts s =
     (let base = base_of B cfg in
      if base = [] then (mock_fetch_v0 B E path, s)
      else
        (let req = build_request B base path opts s
         in (decode_v0 (backend E req), s\<lparr>calls := calls s @ [req]\<rparr>)))"

text \<open>
  \<open>App.balance = res.data.balance\<close> is unguarded here: the read throws when the body
  is \<open>null\<close> or missing, and \<open>updateBalanceUI\<close> is then not reached.
\<close>

definition refreshBalance_v0 :: "builtins \<Rightarrow> config \<Rightarrow> env \<Rightarrow> state \<Rightarrow> outcome" where
  "refreshBalance_v0 B cfg E s =
     (let (res, s1) = apiFetch_v0 B cfg E ''/me/balance'' no_options s in
      if ok res then
        (if nullish (data res) then Threw s1
         else Done (updateBalanceUI B (s1\<lparr>balance := get (data res) ''balance''\<rparr>)))
      else Done (updateBalanceUI B (s1\<lparr>balance := JNum (or_zero MOCK_balance)\<rparr>)))"

text \<open>
  The rows of this copy interpolate \<open>tx.title\<close>, \<open>tx.meta\<close>, \<open>tx.date\<close> and
  \<open>tx.amount\<close> as they are.
\<close>

definition tx_item_v0 :: "builtins \<Rightarrow> json \<Rightarrow> li" where
  "tx_item_v0 B tx =
     TxItem (String_js B (get tx ''title'')) (String_js B (get tx ''meta'')) (String_js B (get tx ''date''))
       (if num_lt (Number_js B (get tx ''amount'')) (Fin 0) then ''-'' else [])
       (currency B (JNum (num_abs (Number_js B (get tx ''amount'')))))"

fun forEach_tx_v0 :: "builtins \<Rightarrow> json list \<Rightarrow> state \<Rightarrow> outcome" where
  "forEach_tx_v0 B [] s = Done s"
| "forEach_tx_v0 B (tx # txs) s =
     (if nullish tx then Threw s
      else forEach_tx_v0 B txs (s\<lparr>txList := txList s @ [tx_item_v0 B tx]\<rparr>))"

definition renderTransactions_v0 :: "builtins \<Rightarrow> state \<Rightarrow> outcome" where
  "renderTransactions_v0 B s =
     (let s0 = s\<lparr>txList := []\<rparr> in
      if \<not> truthy (transactions s) then Done (s0\<lparr>txList := [NoTransactions]\<rparr>)
      else if \<not> truthy (length_js (transactions s)) then Done (s0\<lparr>txList := [NoTransactions]\<rparr>)
      else (case transactions s of JArr txs \<Rightarrow> forEach_tx_v0 B txs s0 | _ \<Rightarrow> Threw s0))"

definition loadTransactions_v0 :: "builtins \<Rightarrow> config \<Rightarrow> env \<Rightarrow> state \<Rightarrow> outcome" where
  "loadTransactions_v0 B cfg E s =
     (let (res, s1) = apiFetch_v0 B cfg E ''/me/transactions'' no_options s in
      if ok res then
        (if nullish (data res) then Threw s1
         else renderTransactions_v0 B (s1\<lparr>transactions := get (data res) ''transactions''\<rparr>))
      else renderTransactions_v0 B (s1\<lparr>transactions := MOCK_transactions\<rparr>))"

definition onLoggedIn_v0 :: "builtins \<Rightarrow> config \<Rightarrow> env \<Rightarrow> state \<Rightarrow> outcome" where
  "onLoggedIn_v0 B cfg E s =
     and_then
       (refreshBalance_v0 B cfg E
          (s\<lparr>authScreen_hidden := True,
             dashboardScreen_hidden := False,
             greeting := ''Hi, '' @ String_js B (js_or (opt_get (user s) ''name'') (JStr ''User'')),
             userEmail := String_js B (js_or (opt_get (user s) ''email'') (JStr []))\<rparr>))
       (loadTransactions_v0 B cfg E)"

text \<open>
  \<open>'Login failed: ' + (res.error || 'server error')\<close>. In the success branch
  \<open>res.data.token\<close> is read unguarded, so a body that is \<open>null\<close> makes the handler throw.
\<close>

definition handleLogin_v0 :: "builtins \<Rightarrow> config \<Rightarrow> env \<Rightarrow> string \<Rightarrow> string \<Rightarrow> state \<Rightarrow> outcome" where
  "handleLogin_v0 B cfg E identifier_value password_value s =
     (let identifier = trim B identifier_value; password = trim B password_value in
      if identifier = [] \<or> password = [] then
        Done (toast B (JStr ''Provide email/phone and password'') s)
      else
        (let (res, s1) = apiFetch_v0 B cfg E ''/auth/login''
               (post (json_stringify B
                  (JObj [(''identifier'', JStr identifier), (''password'', JStr password)]))) s
         in if ok res then
              (if nullish (data res) then Threw s1
               else Done (toast B (JStr ''Logged in'')
                      (final (onLoggedIn_v0 B cfg E
                         (s1\<lparr>token := get (data res) ''token'', user := get (data res) ''user''\<rparr>)))))
            else Done (toast B
                   (JStr (''Login failed: '' @ String_js B (js_or (error res) (JStr ''server error'')))) s1)))"

definition payService_v0 :: "builtins \<Rightarrow> config \<Rightarrow> env \<Rightarrow> string \<Rightarrow> string \<Rightarrow> state \<Rightarrow> outcome" where
  "payService_v0 B cfg E customer_value amount_value s =
     (let customer = trim B customer_value; amount = Number_js B (JStr amount_value) in
      if customer = [] \<or> \<not> num_truthy amount \<or> num_le amount (Fin 0) then
        Done (toast B (JStr ''Complete the service form'') s)
      else
        (let (res, s1) = apiFetch_v0 B cfg E ''/pay/service''
               (post (json_stringify B
                  (JObj [(''service'', currentService s), (''customer'', JStr customer),
                         (''amount'', JNum amount)]))) s
         in if ok res then
              and_then
                (and_then (refreshBalance_v0 B cfg E (toast B (JStr ''Service paid'') s1))
                   (loadTransactions_v0 B cfg E))
                (\<lambda>s2. Done (s2\<lparr>serviceModal_hidden := True\<rparr>))
            else Done (toast B
                   (JStr (''Service failed: '' @ String_js B (js_or (error res) (JStr ''server error'')))) s1)))"

text \<open>The handler of \<open>#logout-btn\<close> in this copy.\<close>

definition logout_click_v0 :: "state \<Rightarrow> state" where
  "logout_click_v0 s =
     s\<lparr>token := JNull,
       user := JNull,
       dashboardScreen_hidden := True,
       authScreen_hidden := False\<rparr>"

section \<open>Sample inputs\<close>

text \<open>
  The theorems below hold for every choice of the built-ins. To run the model on concrete
  inputs, \<open>sample_builtins\<close> is one such choice. It follows ECMAScript where the examples
  look: \<open>trim\<close> removes ASCII white space at both ends; \<open>Number\<close> of a string of
  decimal digits is its value, of the empty string 0, of anything else here \<open>NaN\<close>;
  \<open>String\<close> prints \<open>undefined\<close>, \<open>null\<close>, the booleans and the natural numbers.
  Numbers are formatted with two decimals and no grouping, and \<open>JSON.stringify\<close> writes
  strings without escapes; elsewhere the sample is a stand-in.
\<close>

definition ascii_space :: "char \<Rightarrow> bool" where
  "ascii_space c = (c \<in> set [CHR 0x20, CHR 0x09, CHR 0x0A, CHR 0x0B, CHR 0x0C, CHR 0x0D])"

definition trim_ascii :: "string \<Rightarrow> string" where
  "trim_ascii s = rev (dropWhile ascii_space (rev (dropWhile ascii_space s)))"

fun digits_value :: "string \<Rightarrow> nat \<Rightarrow> nat option" where
  "digits_value [] acc = Some acc"
| "digits_value (c # cs) acc =
     (if (48::nat) \<le> of_char c \<and> of_char c \<le> (57::nat)
      then digits_value cs (10 * acc + (of_char c - 48))
      else None)"

definition decimal_number :: "string \<Rightarrow> jsnum" where
  "decimal_number s =
     (case digits_value (trim_ascii s) 0 of Some n \<Rightarrow> Fin (of_nat n) | None \<Rightarrow> NaN)"

fun show_nat :: "nat \<Rightarrow> string" where
  "show_nat n =
     (if n < 10 then [''0123456789'' ! n] else show_nat (n div 10) @ [''0123456789'' ! (n mod 10)])"

declare show_nat.simps [simp del]

definition show_number :: "jsnum \<Rightarrow> string" where
  "show_number n =
     (case n of
        NaN \<Rightarrow> ''NaN''
      | NegInf \<Rightarrow> ''-Infinity''
      | PosInf \<Rightarrow> ''Infinity''
      | Fin q \<Rightarrow> (if q < 0 then ''-'' else []) @ show_nat (nat \<lfloor>\<bar>q\<bar>\<rfloor>))"

definition show_value :: "json \<Rightarrow> string" where
  "show_value v =
     (case v of
        JUndefined \<Rightarrow> ''undefined''
      | JNull \<Rightarrow> ''null''
      | JBool b \<Rightarrow> (if b then ''true'' else ''false'')
      | JNum n \<Rightarrow> show_number n
      | JStr s \<Rightarrow> s
      | JArr xs \<Rightarrow> []
      | JObj kvs \<Rightarrow> ''[object Object]'')"

definition two_decimals :: "jsnum \<Rightarrow> string" where
  "two_decimals n =
     (case n of
        Fin q \<Rightarrow>
          (let cents = nat \<lfloor>\<bar>q\<bar> * 100 + 1 / 2\<rfloor> in
           (if q < 0 then ''-'' else []) @ show_nat (cents div 100) @ ''.''
             @ show_nat (cents mod 100 div 10) @ show_nat (cents mod 10))
      | _ \<Rightarrow> show_number n)"

fun quoted :: "string \<Rightarrow> string" where
  "quoted s = CHR 0x22 # s @ [CHR 0x22]"

fun commas :: "string list \<Rightarrow> string" where
  "commas [] = []"
| "commas [x] = x"
| "commas (x # y # ys) = x @ '','' @ commas (y # ys)"

fun stringify :: "json \<Rightarrow> string"
  and stringify_items :: "json list \<Rightarrow> string list"
  and stringify_members :: "(string \<times> json) list \<Rightarrow> string list" where
  "stringify JUndefined = ''undefined''"
| "stringify JNull = ''null''"
| "stringify (JBool b) = (if b then ''true'' else ''false'')"
| "stringify (JNum n) = (case n of Fin q \<Rightarrow> show_number n | _ \<Rightarrow> ''null'')"
| "stringify (JStr s) = quoted s"
| "stringify (JArr xs) = ''['' @ commas (stringify_items xs) @ '']''"
| "stringify (JObj kvs) = ''{'' @ commas (stringify_members kvs) @ ''}''"
| "stringify_items [] = []"
| "stringify_items (x # xs) = stringify x # stringify_items xs"
| "stringify_members [] = []"
| "stringify_members (kv # kvs) = (quoted (fst kv) @ '':'' @ stringify (snd kv)) # stringify_members kvs"

definition sample_builtins :: builtins where
  "sample_builtins =
     \<lparr>str_to_num = decimal_number, to_str = show_value, trim = trim_ascii,
      to_locale = two_decimals, json_stringify = stringify\<rparr>"

text \<open>
  A backend that answers every request with the same status and JSON body, with the
  content type \<open>application/json\<close>, and one that cannot be reached.
\<close>

definition answering :: "nat \<Rightarrow> json \<Rightarrow> env" where
  "answering st body =
     \<lparr>backend = (\<lambda>req. Response st (Some ''application/json; charset=utf-8'')
                   (stringify body) (Inr body)),
      now = 1762128000000, paystack_ready = False, paystack_attaches = False\<rparr>"

definition unreachable :: env where
  "unreachable =
     \<lparr>backend = (\<lambda>req. Rejected ''Failed to fetch''),
      now = 1762128000000, paystack_ready = False, paystack_attaches = False\<rparr>"

text \<open>
  A dashboard session restored from storage, as \<open>init\<close> sets it up before the first
  refresh of balance and transactions has come back.
\<close>

definition logged_in :: state where
  "logged_in =
     App_initial\<lparr>token := JStr ''demo-token'', user := MOCK_user,
       authScreen_hidden := True, dashboardScreen_hidden := False,
       greeting := ''Hi, Demo User'', userEmail := ''demo@example.com'',
       localStorage := [''pd_token'' \<mapsto> ''demo-token'', ''pd_user'' \<mapsto> stringify MOCK_user]\<rparr>"

section \<open>Properties of src/script.js\<close>

subsection \<open>What the refresh after a login leaves alone\<close>

text \<open>
  Neither the API wrapper nor the balance and transaction refresh nor a toast writes the
  token, the user or the storage.
\<close>

lemma apiFetch_session [simp]:
  "token (snd (apiFetch B cfg E path opts s)) = token s"
  "user (snd (apiFetch B cfg E path opts s)) = user s"
  "localStorage (snd (apiFetch B cfg E path opts s)) = localStorage s"
  by (simp_all add: apiFetch_def Let_def)

lemma forEach_tx_final:
  "final (forEach_tx B txs s) =
     s\<lparr>txList := txList s @ map (tx_item B) (takeWhile (\<lambda>tx. \<not> nullish tx) txs)\<rparr>"
  by (induction txs arbitrary: s) simp_all

lemma forEach_tx_Done:
  "list_all (\<lambda>tx. \<not> nullish tx) txs \<Longrightarrow>
     forEach_tx B txs s = Done (s\<lparr>txList := txList s @ map (tx_item B) txs\<rparr>)"
  by (induction txs arbitrary: s) simp_all

lemma renderTransactions_session [simp]:
  "token (final (renderTransactions B s)) = token s"
  "user (final (renderTransactions B s)) = user s"
  "localStorage (final (renderTransactions B s)) = localStorage s"
  by (simp_all add: renderTransactions_def Let_def forEach_tx_final split: json.split)

lemma refreshBalance_reply_session [simp]:
  "token (refreshBalance_reply B res s) = token s"
  "user (refreshBalance_reply B res s) = user s"
  "localStorage (refreshBalance_reply B res s) = localStorage s"
  by (simp_all add: refreshBalance_reply_def updateBalanceUI_def)

lemma refreshBalance_session [simp]:
  "token (refreshBalance B cfg E s) = token s"
  "user (refreshBalance B cfg E s) = user s"
  "localStorage (refreshBalance B cfg E s) = localStorage s"
  by (simp_all add: refreshBalance_def split_beta)

lemma loadTransactions_reply_session [simp]:
  "token (final (loadTransactions_reply B res s)) = token s"
  "user (final (loadTransactions_reply B res s)) = user s"
  "localStorage (final (loadTransactions_reply B res s)) = localStorage s"
  by (simp_all add: loadTransactions_reply_def)

lemma loadTransactions_session [simp]:
  "token (final (loadTransactions B cfg E s)) = token s"
  "user (final (loadTransactions B cfg E s)) = user s"
  "localStorage (final (loadTransactions B cfg E s)) = localStorage s"
  by (simp_all add: loadTransactions_def split_beta)

lemma onLoggedIn_session [simp]:
  "token (final (onLoggedIn B cfg E s)) = token s"
  "user (final (onLoggedIn B cfg E s)) = user s"
  "localStorage (final (onLoggedIn B cfg E s)) = localStorage s"
  by (simp_all add: onLoggedIn_def)

lemma toast_session [simp]:
  "token (toast B m s) = token s"
  "user (toast B m s) = user s"
  "localStorage (toast B m s) = localStorage s"
  by (simp_all add: toast_def)

lemma truthy_get_data: "truthy (get d k) \<Longrightarrow> truthy d"
  by (cases d) simp_all

lemma handleLogin_submits:
  assumes "trim B i \<noteq> []" and "trim B p \<noteq> []"
  shows "handleLogin B cfg E i p s =
     (case apiFetch B cfg E ''/auth/login''
             (post (json_stringify B (JObj [(''identifier'', JStr (trim B i)), (''password'', JStr (trim B p))]))) s
      of (res, s1) \<Rightarrow> handleLogin_reply B cfg E res s1)"
  using assms by (simp add: handleLogin_def Let_def)

lemma handleRegister_submits:
  assumes "trim B n \<noteq> []" and "trim B e \<noteq> []" and "trim B p \<noteq> []"
  shows "handleRegister B cfg E n e ph p s =
     (case apiFetch B cfg E ''/auth/register''
             (post (json_stringify B (JObj [(''name'', JStr (trim B n)), (''email'', JStr (trim B e)),
                (''phone'', JStr (trim B ph)), (''password'', JStr (trim B p))]))) s
      of (res, s1) \<Rightarrow> handleRegister_reply B cfg E res s1)"
  using assms by (simp add: handleRegister_def Let_def)

subsection \<open>Reading values\<close>

lemma opt_get_eq: "opt_get v k = get v k"
  by (cases v) (simp_all add: opt_get_def)

lemma typeof_undefined: "(typeof v = TUndefined) = (v = JUndefined)"
  by (cases v) simp_all

lemma typeof_number: "(typeof v = TNumber) = (\<exists>n. v = JNum n)"
  by (cases v) simp_all

lemma startsWith_iff: "startsWith s t = (\<exists>q. s = t @ q)"
  by (induction s t rule: startsWith.induct) auto

lemma includes_js_iff: "includes_js s t = (\<exists>p q. s = p @ t @ q)"
proof (induction s)
  case Nil
  then show ?case by auto
next
  case (Cons c s)
  show ?case
  proof
    assume "includes_js (c # s) t"
    then consider "startsWith (c # s) t" | "includes_js s t" by auto
    then show "\<exists>p q. c # s = p @ t @ q"
    proof cases
      case 1
      then obtain q where "c # s = t @ q" using startsWith_iff by blast
      then have "c # s = [] @ t @ q" by simp
      then show ?thesis by blast
    next
      case 2
      then obtain p q where "s = p @ t @ q" using Cons.IH by blast
      then have "c # s = (c # p) @ t @ q" by simp
      then show ?thesis by blast
    qed
  next
    assume "\<exists>p q. c # s = p @ t @ q"
    then obtain p q where e: "c # s = p @ t @ q" by blast
    show "includes_js (c # s) t"
    proof (cases p)
      case Nil
      then have "startsWith (c # s) t" using e startsWith_iff by auto
      then show ?thesis by simp
    next
      case (Cons d p')
      then have "s = p' @ t @ q" using e by simp
      then have "includes_js s t" using Cons.IH by blast
      then show ?thesis by simp
    qed
  qed
qed

lemma failure_message_first:
  "failure_message res fallback =
     (if truthy (get (data res) ''message'') then get (data res) ''message''
      else if truthy (get (data res) ''error'') then get (data res) ''error''
      else if truthy (error res) then error res
      else JStr fallback)"
  by (simp add: failure_message_def js_or_def opt_get_eq)

subsection \<open>Running the sample inputs\<close>

lemma sample_fields [simp]:
  "trim sample_builtins = trim_ascii"
  "str_to_num sample_builtins = decimal_number"
  "to_str sample_builtins = show_value"
  "to_locale sample_builtins = two_decimals"
  "json_stringify sample_builtins = stringify"
  by (simp_all add: sample_builtins_def)

lemma base_of_CONFIG: "base_of sample_builtins CONFIG = ''https://paymomentbackend.onrender.com/api''"
  by (simp add: base_of_def CONFIG_def trim_ascii_def ascii_space_def)

lemma decode_answering: "decode (backend (answering st body) req) = http_reply st body"
  by (simp add: decode_def answering_def)

lemma apiFetch_answering:
  "apiFetch sample_builtins CONFIG (answering st body) path opts s =
     (http_reply st body,
      s\<lparr>calls := calls s @ [build_request sample_builtins ''https://paymomentbackend.onrender.com/api'' path opts s]\<rparr>)"
  by (simp add: apiFetch_def base_of_CONFIG decode_answering Let_def)

lemma handleLogin_answering:
  "trim_ascii i \<noteq> [] \<Longrightarrow> trim_ascii p \<noteq> [] \<Longrightarrow>
   handleLogin sample_builtins CONFIG (answering st body) i p s =
     handleLogin_reply sample_builtins CONFIG (answering st body) (http_reply st body)
       (s\<lparr>calls := calls s @ [build_request sample_builtins ''https://paymomentbackend.onrender.com/api''
          ''/auth/login''
          (post (stringify (JObj [(''identifier'', JStr (trim_ascii i)), (''password'', JStr (trim_ascii p))]))) s]\<rparr>)"
  by (simp add: handleLogin_def apiFetch_answering Let_def)

lemma base_of_CONFIG_v0_set:
  "base_of sample_builtins (CONFIG_v0\<lparr>API_BASE := ''https://paymomentbackend.onrender.com/api''\<rparr>)
     = ''https://paymomentbackend.onrender.com/api''"
  by (simp add: base_of_def trim_ascii_def ascii_space_def)

lemma decode_v0_answering: "decode_v0 (backend (answering st body) req) = http_reply st body"
  by (simp add: decode_v0_def answering_def)

lemma apiFetch_v0_answering:
  "apiFetch_v0 sample_builtins (CONFIG_v0\<lparr>API_BASE := ''https://paymomentbackend.onrender.com/api''\<rparr>)
       (answering st body) path opts s =
     (http_reply st body,
      s\<lparr>calls := calls s @ [build_request sample_builtins ''https://paymomentbackend.onrender.com/api'' path opts s]\<rparr>)"
  by (simp add: apiFetch_v0_def base_of_CONFIG_v0_set decode_v0_answering Let_def del: config.simps)

subsection \<open>Authentication replies\<close>

text \<open>
  Claim C1. For every login or registration reply with a success status whose body holds
  a token under \<open>token\<close> or \<open>access_token\<close>, the session ends up authenticated with
  that token, which is not empty, and the session user is the reply's \<open>user\<close> field,
  else its \<open>profile\<close> field, else the fixed placeholder user.

  A field counts as held when its value is truthy, which is what \<open>||\<close> tests: a
  non-empty string in particular. \<open>token\<close> has precedence over \<open>access_token\<close>. The
  refresh of balance and transactions that follows, whatever the backend answers to it,
  leaves token and user as set.
\<close>

theorem auth_reply_with_token:
  assumes "ok res"
    and "truthy (get (data res) ''token'') \<or> truthy (get (data res) ''access_token'')"
  shows "let tok = (if truthy (get (data res) ''token'') then get (data res) ''token''
                    else get (data res) ''access_token'');
             usr = (if truthy (get (data res) ''user'') then get (data res) ''user''
                    else if truthy (get (data res) ''profile'') then get (data res) ''profile''
                    else MOCK_user)
         in truthy tok
          \<and> token (final (handleLogin_reply B cfg E res s)) = tok
          \<and> user (final (handleLogin_reply B cfg E res s)) = usr
          \<and> token (final (handleRegister_reply B cfg E res s)) = tok
          \<and> user (final (handleRegister_reply B cfg E res s)) = usr"
proof -
  have d: "truthy (data res)"
    using assms(2) truthy_get_data by blast
  have t: "truthy (js_or (get (data res) ''token'') (get (data res) ''access_token''))"
    using assms(2) by (auto simp: js_or_def)
  have l: "handleLogin_reply B cfg E res s =
        Done (toast B (JStr ''Logged in'') (final (onLoggedIn B cfg E (store_session B (data res) s))))"
    using assms(1) d t by (simp add: handleLogin_reply_def)
  have r: "handleRegister_reply B cfg E res s =
        Done (toast B (JStr ''Account created'') (final (onLoggedIn B cfg E (store_session B (data res) s))))"
    using assms(1) d t by (simp add: handleRegister_reply_def)
  show ?thesis
    using assms(2) unfolding l r by (auto simp: Let_def store_session_def js_or_def)
qed

theorem auth_reply_with_token_witness:
  "ok (http_reply 200 (JObj [(''access_token'', JStr ''abc''), (''profile'', JObj [(''name'', JStr ''Ada'')])]))
   \<and> token (final (handleLogin sample_builtins CONFIG
        (answering 200 (JObj [(''access_token'', JStr ''abc''), (''profile'', JObj [(''name'', JStr ''Ada'')])]))
        ''ada@example.com'' ''secret'' App_initial)) = JStr ''abc''
   \<and> user (final (handleLogin sample_builtins CONFIG
        (answering 200 (JObj [(''access_token'', JStr ''abc''), (''profile'', JObj [(''name'', JStr ''Ada'')])]))
        ''ada@example.com'' ''secret'' App_initial)) = JObj [(''name'', JStr ''Ada'')]
   \<and> token (final (handleRegister_reply sample_builtins CONFIG unreachable
        (http_reply 200 (JObj [(''access_token'', JStr ''abc''), (''profile'', JObj [(''name'', JStr ''Ada'')])]))
        App_initial)) = JStr ''abc''"
proof -
  let ?body = "JObj [(''access_token'', JStr ''abc''), (''profile'', JObj [(''name'', JStr ''Ada'')])]"
  have i: "trim_ascii ''ada@example.com'' \<noteq> []" and p: "trim_ascii ''secret'' \<noteq> []"
    by (simp_all add: trim_ascii_def ascii_space_def)
  have o: "ok (http_reply 200 ?body)"
    by (simp add: http_reply_def res_ok_def)
  have h: "truthy (get (data (http_reply 200 ?body)) ''token'')
      \<or> truthy (get (data (http_reply 200 ?body)) ''access_token'')"
    by (simp add: http_reply_def)
  show ?thesis
    unfolding handleLogin_answering [OF i p]
    using o auth_reply_with_token [OF o h, of sample_builtins CONFIG "answering 200 ?body"]
      auth_reply_with_token [OF o h, of sample_builtins CONFIG unreachable App_initial]
    by (simp add: http_reply_def Let_def)
qed

text \<open>
  Claim C9. For every login or registration reply with a success status whose body holds
  neither a \<open>token\<close> nor an \<open>access_token\<close>, the handler only shows the failure
  notification: the state is the one before with the toast set, so the token stays as it
  was (absent, for a visitor who is not logged in), nothing is written to the storage,
  and the screens stay as they were instead of the dashboard being entered.
\<close>

theorem auth_reply_without_token:
  assumes "ok res"
    and "\<not> truthy (get (data res) ''token'')"
    and "\<not> truthy (get (data res) ''access_token'')"
  shows "handleLogin_reply B cfg E res s =
           Done (s\<lparr>toast_text := String_js B (failure_message res ''Login failed''), toast_hidden := False\<rparr>)
       \<and> handleRegister_reply B cfg E res s =
           Done (s\<lparr>toast_text := String_js B (failure_message res ''Register failed''), toast_hidden := False\<rparr>)"
  using assms by (simp add: handleLogin_reply_def handleRegister_reply_def js_or_def toast_def)

theorem auth_reply_without_token_witness:
  "ok (http_reply 200 (JObj [(''message'', JStr ''Check your inbox to verify your account'')]))
   \<and> \<not> truthy (get (data (http_reply 200 (JObj [(''message'', JStr ''Check your inbox to verify your account'')]))) ''token'')
   \<and> \<not> truthy (get (data (http_reply 200 (JObj [(''message'', JStr ''Check your inbox to verify your account'')]))) ''access_token'')
   \<and> handleLogin_reply sample_builtins CONFIG unreachable
         (http_reply 200 (JObj [(''message'', JStr ''Check your inbox to verify your account'')])) App_initial =
       Done (App_initial\<lparr>toast_text := ''Check your inbox to verify your account'', toast_hidden := False\<rparr>)
   \<and> handleRegister_reply sample_builtins CONFIG unreachable
         (http_reply 200 (JObj [(''message'', JStr ''Check your inbox to verify your account'')])) App_initial =
       Done (App_initial\<lparr>toast_text := ''Check your inbox to verify your account'', toast_hidden := False\<rparr>)"
  using auth_reply_without_token [of "http_reply 200 (JObj [(''message'', JStr ''Check your inbox to verify your account'')])"
     sample_builtins CONFIG unreachable App_initial]
  by (simp add: http_reply_def res_ok_def failure_message_def opt_get_def js_or_def)

subsection \<open>Transaction rows\<close>

lemma renderTransactions_array:
  assumes "transactions s = JArr txs" and "txs \<noteq> []"
  shows "renderTransactions B s = forEach_tx B txs (s\<lparr>txList := []\<rparr>)"
  using assms by (simp add: renderTransactions_def)

lemma renderTransactions_rows:
  assumes "transactions s = JArr txs" and "txs \<noteq> []"
  shows "txList (final (renderTransactions B s)) = map (tx_item B) (takeWhile (\<lambda>tx. \<not> nullish tx) txs)"
  using assms by (simp add: renderTransactions_def forEach_tx_final)

lemma tx_item_title:
  "li_title (tx_item B tx) = String_js B
     (if truthy (get tx ''title'') then get tx ''title''
      else if truthy (get tx ''description'') then get tx ''description''
      else if truthy (get tx ''type'') then get tx ''type''
      else JStr ''Transaction'')"
  by (simp add: tx_item_def tx_title_def js_or_def)

text \<open>
  Claim C2. For every element of a transaction list, the rendered row's title is the
  element's \<open>title\<close> field if there is one, else its \<open>description\<close> field, else its
  \<open>type\<close> field, else the literal \<open>Transaction\<close>, in that order of precedence.

  The list is one whose elements can be read (none is \<open>null\<close>); every element then gets
  its row, in order. As above a field is there when its value is truthy.
\<close>

theorem row_title_precedence:
  assumes "transactions s = JArr txs"
    and "\<forall>tx \<in> set txs. \<not> nullish tx"
    and "i < length txs"
  shows "\<exists>s'. renderTransactions B s = Done s'
      \<and> length (txList s') = length txs
      \<and> li_title (txList s' ! i) = String_js B
          (if truthy (get (txs ! i) ''title'') then get (txs ! i) ''title''
           else if truthy (get (txs ! i) ''description'') then get (txs ! i) ''description''
           else if truthy (get (txs ! i) ''type'') then get (txs ! i) ''type''
           else JStr ''Transaction'')"
proof -
  have ne: "txs \<noteq> []"
    using assms(3) by auto
  have all: "list_all (\<lambda>tx. \<not> nullish tx) txs"
    using assms(2) by (simp add: list_all_iff)
  have r: "renderTransactions B s = Done (s\<lparr>txList := map (tx_item B) txs\<rparr>)"
    using renderTransactions_array [OF assms(1) ne] forEach_tx_Done [OF all, of B "s\<lparr>txList := []\<rparr>"]
    by simp
  have "li_title (tx_item B (txs ! i)) = String_js B (tx_title (txs ! i))"
    by (simp add: tx_item_def)
  then show ?thesis
    using r assms(3) by (simp add: tx_title_def js_or_def)
qed

theorem row_title_precedence_witness:
  "map li_title (txList (final (renderTransactions sample_builtins
        (logged_in\<lparr>transactions := JArr
           [JObj [(''title'', JStr ''Top up''), (''description'', JStr ''Card top up'')],
            JObj [(''description'', JStr ''Ibadan Elec''), (''type'', JStr ''bill'')],
            JObj [(''title'', JStr []), (''type'', JStr ''airtime'')],
            JObj [(''amount'', JNum (Fin (- 500)))]]\<rparr>))))
     = [''Top up'', ''Ibadan Elec'', ''airtime'', ''Transaction'']"
proof -
  let ?txs = "[JObj [(''title'', JStr ''Top up''), (''description'', JStr ''Card top up'')],
            JObj [(''description'', JStr ''Ibadan Elec''), (''type'', JStr ''bill'')],
            JObj [(''title'', JStr []), (''type'', JStr ''airtime'')],
            JObj [(''amount'', JNum (Fin (- 500)))]]"
  let ?s = "logged_in\<lparr>transactions := JArr ?txs\<rparr>"
  have t: "transactions ?s = JArr ?txs" by simp
  have n: "\<forall>tx \<in> set ?txs. \<not> nullish tx" by simp
  have l: "length (txList (final (renderTransactions sample_builtins ?s))) = 4"
    using row_title_precedence [OF t n, of 0 sample_builtins] by auto
  have t0: "li_title (txList (final (renderTransactions sample_builtins ?s)) ! 0) = ''Top up''"
    using row_title_precedence [OF t n, of 0 sample_builtins] by auto
  have t1: "li_title (txList (final (renderTransactions sample_builtins ?s)) ! 1) = ''Ibadan Elec''"
    using row_title_precedence [OF t n, of 1 sample_builtins] by auto
  have t2: "li_title (txList (final (renderTransactions sample_builtins ?s)) ! 2) = ''airtime''"
    using row_title_precedence [OF t n, of 2 sample_builtins] by auto
  have t3: "li_title (txList (final (renderTransactions sample_builtins ?s)) ! 3) = ''Transaction''"
    using row_title_precedence [OF t n, of 3 sample_builtins] by auto
  have "map li_title (txList (final (renderTransactions sample_builtins ?s)))
      = [''Top up'', ''Ibadan Elec'', ''airtime'', ''Transaction'']"
    using l t0 t1 t2 t3 by (auto simp: list_eq_iff_nth_eq nth_Cons' less_Suc_eq numeral_eq_Suc)
  then show ?thesis .
qed


lemma loadTransactions_reply_array: "isArray (transactions (final (loadTransactions_reply B res s)))"
proof -
  have "transactions (final (renderTransactions B s')) = transactions s'" for s'
    by (simp add: renderTransactions_def Let_def forEach_tx_final split: json.split)
  then show ?thesis
    by (cases "opt_get (data res) ''transactions''"; cases "data res")
      (simp_all add: loadTransactions_reply_def MOCK_transactions_def opt_get_eq)
qed

subsection \<open>The stored balance\<close>

lemma refreshBalance_reply_number: "typeof (balance (refreshBalance_reply B res s)) = TNumber"
  by (simp add: refreshBalance_reply_def updateBalanceUI_def)

lemma refreshBalance_number: "typeof (balance (refreshBalance B cfg E s)) = TNumber"
  by (simp add: refreshBalance_def split_beta refreshBalance_reply_number)

lemma refreshBalance_answering:
  "refreshBalance sample_builtins CONFIG (answering st body) s =
     refreshBalance_reply sample_builtins (http_reply st body)
       (s\<lparr>calls := calls s @ [build_request sample_builtins ''https://paymomentbackend.onrender.com/api'' ''/me/balance'' no_options s]\<rparr>)"
  by (simp add: refreshBalance_def apiFetch_answering)

text \<open>
  Claim C3 says that for every successful balance reply the stored balance is the numeric
  value nested under \<open>balance\<close>, or the bare numeric reply value, and that any
  non-numeric reply value is coerced to 0. The last part is not what \<open>refreshBalance\<close>
  does: a successful reply whose body is the empty object has no numeric value anywhere,
  and the balance stored is the fixture's 15200.5; and a nested \<open>true\<close> is stored as 1.
\<close>

theorem balance_reply_fixture_counterexample:
  "ok (fst (apiFetch sample_builtins CONFIG (answering 200 (JObj [])) ''/me/balance'' no_options logged_in))
   \<and> data (fst (apiFetch sample_builtins CONFIG (answering 200 (JObj [])) ''/me/balance'' no_options logged_in))
       = JObj []
   \<and> balance (refreshBalance sample_builtins CONFIG (answering 200 (JObj [])) logged_in) = JNum (Fin 15200.5)
   \<and> balance (refreshBalance sample_builtins CONFIG (answering 200 (JObj [])) logged_in) \<noteq> JNum (Fin 0)
   \<and> balance (refreshBalance sample_builtins CONFIG (answering 200 (JObj [(''balance'', JBool True)])) logged_in)
       = JNum (Fin 1)"
  by (simp add: refreshBalance_answering apiFetch_answering refreshBalance_reply_def updateBalanceUI_def
      http_reply_def res_ok_def opt_get_eq MOCK_balance_def or_zero_def)

text \<open>
  Claim C3, amended. For every successful balance reply: a \<open>balance\<close> field that is not
  \<open>undefined\<close> is converted with \<open>Number\<close> and stored, with 0 in place of \<open>NaN\<close>, so
  that a nested number is stored as it is; without such a field a bare numeric reply value
  is stored as it is; and any other successful reply stores the fixture balance 15200.5.
\<close>

theorem balance_reply_stored:
  assumes "ok res"
  shows "(get (data res) ''balance'' \<noteq> JUndefined \<longrightarrow>
            balance (refreshBalance_reply B res s)
              = JNum (or_zero (Number_js B (get (data res) ''balance''))))
       \<and> (\<forall>n. get (data res) ''balance'' = JNum n \<longrightarrow>
            balance (refreshBalance_reply B res s) = JNum (if n = NaN then Fin 0 else n))
       \<and> (\<forall>n. data res = JNum n \<longrightarrow> balance (refreshBalance_reply B res s) = JNum n)
       \<and> (get (data res) ''balance'' = JUndefined \<and> typeof (data res) \<noteq> TNumber \<longrightarrow>
            balance (refreshBalance_reply B res s) = JNum (Fin 15200.5))"
proof -
  have a: "get (data res) ''balance'' \<noteq> JUndefined \<Longrightarrow>
      balance (refreshBalance_reply B res s) = JNum (or_zero (Number_js B (get (data res) ''balance'')))"
    using assms by (simp add: refreshBalance_reply_def updateBalanceUI_def opt_get_eq typeof_undefined)
  have b: "or_zero n = (if n = NaN then Fin 0 else n)" for n
    by (cases n) (simp_all add: or_zero_def)
  have c: "data res = JNum n \<Longrightarrow> balance (refreshBalance_reply B res s) = JNum n" for n
    using assms by (simp add: refreshBalance_reply_def updateBalanceUI_def opt_get_eq)
  have d: "get (data res) ''balance'' = JUndefined \<Longrightarrow> typeof (data res) \<noteq> TNumber \<Longrightarrow>
      balance (refreshBalance_reply B res s) = JNum (Fin 15200.5)"
    by (simp add: refreshBalance_reply_def updateBalanceUI_def opt_get_eq MOCK_balance_def or_zero_def)
  show ?thesis
  proof (intro conjI allI impI)
    show "get (data res) ''balance'' \<noteq> JUndefined \<Longrightarrow>
      balance (refreshBalance_reply B res s) = JNum (or_zero (Number_js B (get (data res) ''balance'')))"
      by (rule a)
    show "get (data res) ''balance'' = JNum n \<Longrightarrow>
      balance (refreshBalance_reply B res s) = JNum (if n = NaN then Fin 0 else n)" for n
      using a [of] b [of n] by simp
    show "data res = JNum n \<Longrightarrow> balance (refreshBalance_reply B res s) = JNum n" for n
      by (rule c)
    show "get (data res) ''balance'' = JUndefined \<and> typeof (data res) \<noteq> TNumber \<Longrightarrow>
      balance (refreshBalance_reply B res s) = JNum (Fin 15200.5)"
      using d by simp
  qed
qed

theorem balance_reply_stored_witness:
  "ok (http_reply 200 (JObj [(''balance'', JStr ''2500'')]))
   \<and> balance (refreshBalance_reply sample_builtins (http_reply 200 (JObj [(''balance'', JStr ''2500'')])) logged_in)
       = JNum (Fin 2500)"
  using balance_reply_stored [of "http_reply 200 (JObj [(''balance'', JStr ''2500'')])" sample_builtins logged_in]
  by (simp add: http_reply_def res_ok_def or_zero_def sample_builtins_def decimal_number_def
      trim_ascii_def ascii_space_def)

subsection \<open>Top-up amounts\<close>

lemma num_le_50_truthy: "num_le (Fin 50) a \<Longrightarrow> num_truthy a \<and> \<not> num_lt a (Fin 50)"
  by (cases a) auto

lemma topup_amount_cases:
  "num_lt (or_zero n) (Fin 50) \<or> num_le (Fin 50) (or_zero n)"
  by (cases n) (auto simp: or_zero_def)

text \<open>
  Claim C7. A top-up whose amount is below the minimum of 50 (49 for one) is rejected
  before any request: the handler only shows the minimum-amount message, and the log of
  requests is as it was. With an amount of 50 or more the check passes and the handler
  goes on to the payment itself. The amount is \<open>Number(value) || 0\<close> of the text in the
  amount field, so it is never \<open>NaN\<close> and one of the two cases applies
  (\<open>topup_amount_cases\<close>).
\<close>

theorem topup_minimum:
  "(num_lt (or_zero (str_to_num B v)) (Fin 50) \<longrightarrow>
      startPayment B cfg E v m s =
        Done (s\<lparr>toast_text := ''Provide a valid amount (min 50)'', toast_hidden := False\<rparr>)
      \<and> calls (final (startPayment B cfg E v m s)) = calls s)
   \<and> (num_le (Fin 50) (or_zero (str_to_num B v)) \<longrightarrow>
      startPayment B cfg E v m s = startPayment_checked B cfg E (or_zero (str_to_num B v)) m s)"
  using num_le_50_truthy [of "or_zero (str_to_num B v)"]
  by (auto simp: startPayment_def toast_def Let_def)

theorem topup_minimum_witness:
  "num_lt (or_zero (str_to_num sample_builtins ''49'')) (Fin 50)
   \<and> startPayment sample_builtins CONFIG unreachable ''49'' ''transfer'' logged_in =
        Done (logged_in\<lparr>toast_text := ''Provide a valid amount (min 50)'', toast_hidden := False\<rparr>)
   \<and> calls (final (startPayment sample_builtins CONFIG unreachable ''49'' ''transfer'' logged_in)) = []
   \<and> num_le (Fin 50) (or_zero (str_to_num sample_builtins ''50''))
   \<and> startPayment sample_builtins CONFIG unreachable ''50'' ''transfer'' logged_in =
        startPayment_checked sample_builtins CONFIG unreachable (Fin 50) ''transfer'' logged_in"
proof -
  have a: "or_zero (str_to_num sample_builtins ''49'') = Fin 49"
    by (simp add: decimal_number_def trim_ascii_def ascii_space_def or_zero_def)
  have b: "or_zero (str_to_num sample_builtins ''50'') = Fin 50"
    by (simp add: decimal_number_def trim_ascii_def ascii_space_def or_zero_def)
  have c: "calls logged_in = []"
    by (simp add: logged_in_def App_initial_def)
  show ?thesis
    using topup_minimum [of sample_builtins "''49''" CONFIG unreachable "''transfer''" logged_in]
      topup_minimum [of sample_builtins "''50''" CONFIG unreachable "''transfer''" logged_in]
    unfolding a b by (simp add: c)
qed

text \<open>
  With 50 in the amount field and a backend that cannot be reached, the one request made
  is the top-up call, and the notification is the transport error.
\<close>

lemma topup_50_reaches_backend:
  "map url (calls (final (startPayment sample_builtins CONFIG unreachable ''50'' ''transfer'' logged_in)))
     = [''https://paymomentbackend.onrender.com/api/pay/topup'']
   \<and> toast_text (final (startPayment sample_builtins CONFIG unreachable ''50'' ''transfer'' logged_in))
     = ''Failed to fetch''"
proof -
  have b: "or_zero (decimal_number ''50'') = Fin 50"
    by (simp add: decimal_number_def trim_ascii_def ascii_space_def or_zero_def)
  have c: "calls logged_in = []"
    by (simp add: logged_in_def App_initial_def)
  show ?thesis
    by (simp add: startPayment_def b startPayment_checked_def CONFIG_def topup_transfer_def
        apiFetch_def base_of_def trim_ascii_def ascii_space_def unreachable_def decode_def
        topup_reply_def error_reply_def failure_message_def opt_get_def js_or_def toast_def
        build_request_def c Let_def)
qed

subsection \<open>Balance visibility\<close>

text \<open>
  Claim C8. Toggling the balance visibility twice returns the display to its text: once
  the balance has been rendered, two toggles give back the very same state, and whatever
  the display held before, after two toggles it shows what rendering the state shows. One
  toggle from the visible state shows the masked placeholder, one from the masked state
  the currency string.
\<close>

theorem toggle_twice_restores:
  "toggle_balance_click B (toggle_balance_click B (updateBalanceUI B s)) = updateBalanceUI B s
   \<and> balanceValue (toggle_balance_click B (toggle_balance_click B s)) = balanceValue (updateBalanceUI B s)
   \<and> (balanceVisible s \<longrightarrow> balanceValue (toggle_balance_click B s) = ''****'')
   \<and> (\<not> balanceVisible s \<longrightarrow> balanceValue (toggle_balance_click B s) = currency B (balance s))"
  by (simp add: toggle_balance_click_def updateBalanceUI_def)

theorem toggle_twice_restores_witness:
  "balanceVisible logged_in
   \<and> balanceValue (toggle_balance_click sample_builtins logged_in) = ''****''
   \<and> balanceValue (toggle_balance_click sample_builtins (toggle_balance_click sample_builtins logged_in))
       = balanceValue (updateBalanceUI sample_builtins logged_in)
   \<and> balanceValue (updateBalanceUI sample_builtins logged_in) = naira @ ''0.00''"
proof -
  have v: "balanceVisible logged_in"
    by (simp add: logged_in_def App_initial_def)
  have d: "balanceValue (updateBalanceUI sample_builtins logged_in) = naira @ ''0.00''"
    by (simp add: updateBalanceUI_def logged_in_def App_initial_def currency_def two_decimals_def
        show_nat.simps)
  show ?thesis
    using toggle_twice_restores [of sample_builtins logged_in] v d by simp
qed

subsection \<open>Failure notifications\<close>

text \<open>
  In src/script.js a failed login, top-up or service payment shows the first of: the
  body's \<open>message\<close>, the body's \<open>error\<close>, the transport error, the fixed fallback.
  A login rejected with status 401 and the body \<open>{"message":"invalid credentials"}\<close>
  shows exactly that message and stays on the login screen.
\<close>

lemma failed_request_notification:
  assumes "\<not> ok res"
  shows "handleLogin_reply B cfg E res s =
           Done (s\<lparr>toast_text := String_js B (failure_message res ''Login failed''), toast_hidden := False\<rparr>)
       \<and> topup_reply B cfg E res s =
           Done (s\<lparr>toast_text := String_js B (failure_message res ''Top up failed''), toast_hidden := False\<rparr>)
       \<and> payService_reply B cfg E res s =
           Done (s\<lparr>toast_text := String_js B (failure_message res ''Service payment failed''), toast_hidden := False\<rparr>)"
  using assms by (simp add: handleLogin_reply_def topup_reply_def payService_reply_def toast_def)

lemma login_401_script_js:
  "toast_text (final (handleLogin sample_builtins CONFIG
       (answering 401 (JObj [(''message'', JStr ''invalid credentials'')]))
       ''ada@example.com'' ''secret'' App_initial)) = ''invalid credentials''
   \<and> \<not> authScreen_hidden (final (handleLogin sample_builtins CONFIG
       (answering 401 (JObj [(''message'', JStr ''invalid credentials'')]))
       ''ada@example.com'' ''secret'' App_initial))
   \<and> dashboardScreen_hidden (final (handleLogin sample_builtins CONFIG
       (answering 401 (JObj [(''message'', JStr ''invalid credentials'')]))
       ''ada@example.com'' ''secret'' App_initial))
   \<and> token (final (handleLogin sample_builtins CONFIG
       (answering 401 (JObj [(''message'', JStr ''invalid credentials'')]))
       ''ada@example.com'' ''secret'' App_initial)) = JNull"
proof -
  have i: "trim_ascii ''ada@example.com'' \<noteq> []" and p: "trim_ascii ''secret'' \<noteq> []"
    by (simp_all add: trim_ascii_def ascii_space_def)
  have n: "\<not> ok (http_reply 401 (JObj [(''message'', JStr ''invalid credentials'')]))"
    by (simp add: http_reply_def res_ok_def)
  show ?thesis
    unfolding handleLogin_answering [OF i p]
    using failed_request_notification [OF n]
    by (simp add: failure_message_first http_reply_def App_initial_def)
qed

subsection \<open>Demo mode\<close>

text \<open>
  In src/script.js, with no base address configured, a path of one of the six endpoint
  families gets a made-up successful reply, any other path the error
  \<open>No API configured\<close>, and no request is issued.
\<close>

lemma demo_mode_replies:
  assumes "base_of B cfg = []"
  shows "(includes_js path ''/auth/login'' \<or> includes_js path ''/auth/register''
          \<or> includes_js path ''/me/balance'' \<or> includes_js path ''/me/transactions''
          \<or> includes_js path ''/pay/service'' \<or> includes_js path ''/pay/topup''
          \<longrightarrow> ok (fst (apiFetch B cfg E path opts s)) \<and> error (fst (apiFetch B cfg E path opts s)) = JUndefined)
       \<and> (\<not> includes_js path ''/auth/login'' \<and> \<not> includes_js path ''/auth/register''
          \<and> \<not> includes_js path ''/me/balance'' \<and> \<not> includes_js path ''/me/transactions''
          \<and> \<not> includes_js path ''/pay/service'' \<and> \<not> includes_js path ''/pay/topup''
          \<longrightarrow> fst (apiFetch B cfg E path opts s) = error_reply ''No API configured'')
       \<and> snd (apiFetch B cfg E path opts s) = s"
  using assms by (simp add: apiFetch_def mock_fetch_def mock_reply_def error_reply_def)

subsection \<open>Logout\<close>

text \<open>
  In src/script.js the logout handler removes token and user, removes both storage
  entries and no other, switches from the dashboard to the login screen, and leaves every
  other part of the state as it was.
\<close>

lemma logout_click_clears:
  "token (logout_click s) = JNull \<and> user (logout_click s) = JNull
   \<and> localStorage (logout_click s) ''pd_token'' = None
   \<and> localStorage (logout_click s) ''pd_user'' = None
   \<and> (k \<noteq> ''pd_token'' \<and> k \<noteq> ''pd_user'' \<longrightarrow> localStorage (logout_click s) k = localStorage s k)
   \<and> dashboardScreen_hidden (logout_click s) \<and> \<not> authScreen_hidden (logout_click s)"
  by (simp add: logout_click_def)

lemma logout_click_frame:
  "balanceVisible (logout_click s) = balanceVisible s \<and> balance (logout_click s) = balance s
   \<and> transactions (logout_click s) = transactions s \<and> currentService (logout_click s) = currentService s
   \<and> addMoneyModal_hidden (logout_click s) = addMoneyModal_hidden s
   \<and> serviceModal_hidden (logout_click s) = serviceModal_hidden s
   \<and> greeting (logout_click s) = greeting s \<and> userEmail (logout_click s) = userEmail s
   \<and> balanceValue (logout_click s) = balanceValue s \<and> txList (logout_click s) = txList s
   \<and> toast_text (logout_click s) = toast_text s \<and> toast_hidden (logout_click s) = toast_hidden s
   \<and> paystack_opened (logout_click s) = paystack_opened s \<and> calls (logout_click s) = calls s"
  by (simp add: logout_click_def)

section \<open>Properties of the earlier variant\<close>

text \<open>
  Claim C4. On logout the session is cleared (token and user removed), both storage
  entries, token and user profile, are removed, and nothing else of the session or the
  storage changes. The handler of src/script.js does so (\<open>logout_click_clears\<close>,
  \<open>logout_click_frame\<close>). The handler of the earlier variant clears token and user
  and leaves the storage as it is: after logging out of a restored session the stored
  token is still there, and the next start of the page restores the session from it.
\<close>

theorem logout_v0_keeps_storage:
  "localStorage (logout_click_v0 s) = localStorage s
   \<and> token (logout_click_v0 logged_in) = JNull
   \<and> localStorage (logout_click_v0 logged_in) ''pd_token'' = Some ''demo-token''
   \<and> localStorage (logout_click logged_in) ''pd_token'' = None"
  by (simp add: logout_click_v0_def logout_click_def logged_in_def)

text \<open>
  Claim C5. A failed login, top-up or service payment is notified with the first of the
  body's \<open>message\<close>, the body's \<open>error\<close>, the transport error and a fixed fallback;
  a login rejected with 401 and \<open>{"message":"invalid credentials"}\<close> notifies exactly
  \<open>invalid credentials\<close> and stays on the login screen. src/script.js does so
  (\<open>failed_request_notification\<close>, \<open>login_401_script_js\<close>). The earlier variant never
  reads the body of a failed reply: the same rejected login notifies
  \<open>Login failed: server error\<close>, and a rejected service payment likewise.
\<close>

theorem login_401_v0:
  "toast_text (final (handleLogin_v0 sample_builtins
       (CONFIG_v0\<lparr>API_BASE := ''https://paymomentbackend.onrender.com/api''\<rparr>)
       (answering 401 (JObj [(''message'', JStr ''invalid credentials'')]))
       ''ada@example.com'' ''secret'' App_initial)) = ''Login failed: server error''"
proof -
  have i: "trim_ascii ''ada@example.com'' \<noteq> []" and p: "trim_ascii ''secret'' \<noteq> []"
    by (simp_all add: trim_ascii_def ascii_space_def)
  show ?thesis
    using i p
    by (simp add: handleLogin_v0_def apiFetch_v0_answering Let_def toast_def
        http_reply_def res_ok_def js_or_def del: config.simps)
qed

lemma service_payment_402_v0:
  "toast_text (final (payService_v0 sample_builtins
       (CONFIG_v0\<lparr>API_BASE := ''https://paymomentbackend.onrender.com/api''\<rparr>)
       (answering 402 (JObj [(''message'', JStr ''insufficient funds'')]))
       ''1234567890'' ''2000'' (logged_in\<lparr>currentService := JStr ''electricity''\<rparr>)))
       = ''Service failed: server error''"
proof -
  have c: "trim_ascii ''1234567890'' \<noteq> []"
    by (simp add: trim_ascii_def ascii_space_def)
  have a: "decimal_number ''2000'' = Fin 2000"
    by (simp add: decimal_number_def trim_ascii_def ascii_space_def)
  show ?thesis
    using c
    by (simp add: payService_v0_def apiFetch_v0_answering a Let_def toast_def
        http_reply_def res_ok_def js_or_def del: config.simps)
qed

text \<open>
  Claim C6. With no base address configured, a call of any of the six endpoint families,
  \<open>/pay/topup\<close> among them, gets a made-up successful reply, and a call of any other
  path the error that nothing is configured. src/script.js does so
  (\<open>demo_mode_replies\<close>). The earlier variant, whose configuration has no base address,
  makes up no reply for \<open>/pay/topup\<close>: the call fails with the error
  \<open>No API configured (demo mode)\<close>.
\<close>

theorem demo_topup_v0:
  "fst (apiFetch_v0 B CONFIG_v0 E ''/pay/topup'' opts s) = error_reply ''No API configured (demo mode)''
   \<and> \<not> ok (fst (apiFetch_v0 B CONFIG_v0 E ''/pay/topup'' opts s))
   \<and> ok (fst (apiFetch B (CONFIG\<lparr>API_BASE := []\<rparr>) E ''/pay/topup'' opts s))"
  by (simp add: apiFetch_v0_def apiFetch_def base_of_def CONFIG_v0_def mock_fetch_v0_def mock_fetch_def
      error_reply_def mock_reply_def)

text \<open>
  Claim C10. After every balance refresh, whatever the reply, the stored balance is a
  value of number type, never \<open>undefined\<close> and never a string. src/script.js keeps this
  for every reply (\<open>refreshBalance_number\<close>). The earlier variant stores the
  \<open>balance\<close> field of a successful reply as it is: \<open>undefined\<close> when the body has no
  such field, a string when the field is one.
\<close>

theorem refreshBalance_v0_raw:
  "balance (final (refreshBalance_v0 sample_builtins
       (CONFIG_v0\<lparr>API_BASE := ''https://paymomentbackend.onrender.com/api''\<rparr>)
       (answering 200 (JObj [])) logged_in)) = JUndefined
   \<and> balance (final (refreshBalance_v0 sample_builtins
       (CONFIG_v0\<lparr>API_BASE := ''https://paymomentbackend.onrender.com/api''\<rparr>)
       (answering 200 (JObj [(''balance'', JStr ''2500'')])) logged_in)) = JStr ''2500''
   \<and> typeof (balance (refreshBalance sample_builtins CONFIG (answering 200 (JObj [])) logged_in)) = TNumber"
  by (simp add: refreshBalance_v0_def apiFetch_v0_answering http_reply_def res_ok_def updateBalanceUI_def
      refreshBalance_number del: config.simps)

end
